theory Spec2Isabelle
  imports Main "HOL-Library.Word" "HOL-Library.Sublist" "HOL-Library.Char_ord"
    "HOL-Library.List_Lexorder"
begin

unbundle bit_operations_syntax

section \<open>Values, rules and flag configurations\<close>

text \<open>
  The SDK handles dynamically typed Go values (\<^verbatim>\<open>interface{}\<close>): JSON documents decoded
  by \<^verbatim>\<open>encoding/json\<close> and the attributes a caller puts in an evaluation context.
  A value is modelled by its dynamic type and payload. The cases are the ones the
  source distinguishes in its type assertions and type switches; every other Go type is
  \<open>VOther\<close>, which carries the text \<^verbatim>\<open>fmt.Sprintf("%v", x)\<close> produces for it.

  A \<^verbatim>\<open>float64\<close> is its IEEE 754 bit pattern, a \<^verbatim>\<open>float32\<close> likewise. A Go
  \<^verbatim>\<open>map[string]interface{}\<close> is an association list read with \<open>map_of\<close>. Go's
  \<^verbatim>\<open>int\<close> and \<^verbatim>\<open>int64\<close> are modelled by \<open>int\<close>: the source only compares and
  converts them, it never computes with them, so no overflow can occur.
\<close>

type_synonym byte = "8 word"
type_synonym float64 = "64 word"
type_synonym float32 = "32 word"

datatype val =
    VNil
  | VBool bool
  | VString string
  | VFloat64 float64
  | VFloat32 float32
  | VInt int
  | VInt64 int
  | VSlice "val list"
  | VMap "(string \<times> val) list"
  | VOther string

type_synonym ctx = "(string \<times> val) list"

record Rule =
  Attribute :: string
  Operator :: string
  Value :: val
  Percentage :: "int option"
  RollValue :: val

record FlagConfig =
  Key :: string
  Type :: string
  Enabled :: bool
  DefaultValue :: val
  Rules :: "Rule list"
  RolloutPercentage :: int

section \<open>Library functions the source calls\<close>

text \<open>
  The evaluator calls functions of the Go standard library that are not part of the
  repository. They are parameters of the model, collected in one record, so every
  theorem below holds for whatever these functions compute:
  \<^item> \<open>Sum256\<close> is \<^verbatim>\<open>crypto/sha256.Sum256\<close>; its result is a \<^verbatim>\<open>[32]byte\<close>, read
    here as a function of the index;
  \<^item> \<open>ParseFloat\<close> is the number \<^verbatim>\<open>strconv.ParseFloat(s, 64)\<close> returns (the source
    drops the error);
  \<^item> \<open>float64_of_float32\<close> and \<open>float64_of_int\<close> are the conversion \<^verbatim>\<open>float64(x)\<close>;
  \<^item> \<open>float64_less\<close> is \<^verbatim>\<open><\<close> on \<^verbatim>\<open>float64\<close>;
  \<^item> \<open>FormatFloat64\<close> and \<open>FormatFloat32\<close> are \<^verbatim>\<open>fmt.Sprintf("%v", x)\<close> on a
    floating-point number.
\<close>

record golib =
  Sum256 :: "byte list \<Rightarrow> nat \<Rightarrow> byte"
  ParseFloat :: "string \<Rightarrow> float64"
  float64_of_float32 :: "float32 \<Rightarrow> float64"
  float64_of_int :: "int \<Rightarrow> float64"
  float64_less :: "float64 \<Rightarrow> float64 \<Rightarrow> bool"
  FormatFloat64 :: "float64 \<Rightarrow> string"
  FormatFloat32 :: "float32 \<Rightarrow> string"

section \<open>Rollout bucketing\<close>

text \<open>
  \<^verbatim>\<open>[]byte(input)\<close>: a Go string is a sequence of bytes (the UTF-8 encoding of its
  text), and so is an Isabelle \<open>string\<close>.
\<close>

definition bytes_of :: "string \<Rightarrow> byte list" where
  "bytes_of s = map (\<lambda>c. of_char c) s"

text \<open>
  \<^verbatim>\<open>
  func hashString(input string) int {
      h := sha256.Sum256([]byte(input))
      num := uint32(h[0])<<24 | uint32(h[1])<<16 | uint32(h[2])<<8 | uint32(h[3])
      return int(num % 100)
  }
  \<close>
\<close>

definition hashString :: "golib \<Rightarrow> string \<Rightarrow> int" where
  "hashString L input =
     (let h = Sum256 L (bytes_of input);
          num = (push_bit 24 (ucast (h 0)) OR push_bit 16 (ucast (h 1)) OR
                 push_bit 8 (ucast (h 2)) OR ucast (h 3) :: 32 word)
      in uint (num mod 100))"

text \<open>\<^verbatim>\<open>fmt.Sprintf("%s:%s", userID, flagKey)\<close>\<close>

definition rolloutKey :: "string \<Rightarrow> string \<Rightarrow> string" where
  "rolloutKey userID flagKey = userID @ '':'' @ flagKey"

text \<open>
  \<^verbatim>\<open>
  func isInRollout(userID, flagKey string, percentage int) bool {
      if percentage == 0 { return false }
      if percentage >= 100 { return true }
      bucket := hashString(fmt.Sprintf("%s:%s", userID, flagKey))
      return bucket < percentage
  }
  \<close>
\<close>

definition isInRollout :: "golib \<Rightarrow> string \<Rightarrow> string \<Rightarrow> int \<Rightarrow> bool" where
  "isInRollout L userID flagKey percentage =
     (if percentage = 0 then False
      else if percentage \<ge> 100 then True
      else (let bucket = hashString L (rolloutKey userID flagKey)
            in bucket < percentage))"

section \<open>Rule matching\<close>

text \<open>
  \<^verbatim>\<open>fmt.Sprintf("%v", x)\<close> on a dynamic value: \<^verbatim>\<open><nil>\<close> for nil, \<^verbatim>\<open>true\<close> or
  \<^verbatim>\<open>false\<close>, a string as it is, an integer in decimal, the elements of a slice between
  brackets and separated by spaces, the entries of a map as \<^verbatim>\<open>key:value\<close> in the order
  of their keys.
\<close>

fun digits :: "nat \<Rightarrow> string" where
  "digits n =
     (if n < 10 then [char_of (48 + n)]
      else digits (n div 10) @ [char_of (48 + n mod 10)])"

definition Itoa :: "int \<Rightarrow> string" where
  "Itoa i = (if i < 0 then ''-'' @ digits (nat (- i)) else digits (nat i))"

fun joinWith :: "string \<Rightarrow> string list \<Rightarrow> string" where
  "joinWith sep [] = []"
| "joinWith sep [x] = x"
| "joinWith sep (x # y # ys) = x @ sep @ joinWith sep (y # ys)"

fun Sprint :: "golib \<Rightarrow> val \<Rightarrow> string" where
  "Sprint L VNil = ''<nil>''"
| "Sprint L (VBool b) = (if b then ''true'' else ''false'')"
| "Sprint L (VString s) = s"
| "Sprint L (VFloat64 f) = FormatFloat64 L f"
| "Sprint L (VFloat32 f) = FormatFloat32 L f"
| "Sprint L (VInt i) = Itoa i"
| "Sprint L (VInt64 i) = Itoa i"
| "Sprint L (VSlice xs) = ''['' @ joinWith '' '' (map (Sprint L) xs) @ '']''"
| "Sprint L (VMap m) =
     ''map['' @ joinWith '' ''
        (map (\<lambda>(k, s). k @ '':'' @ s) (sort_key fst (map (\<lambda>(k, v). (k, Sprint L v)) m)))
      @ '']''"
| "Sprint L (VOther s) = s"

text \<open>\<^verbatim>\<open>strings.Contains(s, substr)\<close>: \<open>substr\<close> occurs in \<open>s\<close>.\<close>

fun Contains :: "string \<Rightarrow> string \<Rightarrow> bool" where
  "Contains [] substr = (substr = [])"
| "Contains (c # s) substr = (prefix substr (c # s) \<or> Contains s substr)"

text \<open>
  \<^verbatim>\<open>
  func toFloat(v interface{}) float64 {
      switch val := v.(type) {
      case float64: return val
      case float32: return float64(val)
      case int:     return float64(val)
      case int64:   return float64(val)
      case string:  f, _ := strconv.ParseFloat(val, 64); return f
      default:      return 0
      }
  }
  \<close>
  The bit pattern of the \<^verbatim>\<open>float64\<close> zero is 0.
\<close>

fun toFloat :: "golib \<Rightarrow> val \<Rightarrow> float64" where
  "toFloat L (VFloat64 val) = val"
| "toFloat L (VFloat32 val) = float64_of_float32 L val"
| "toFloat L (VInt val) = float64_of_int L val"
| "toFloat L (VInt64 val) = float64_of_int L val"
| "toFloat L (VString val) = ParseFloat L val"
| "toFloat L _ = 0"

text \<open>
  The loop of the operators \<^verbatim>\<open>in\<close> and \<^verbatim>\<open>not_in\<close>:
  \<^verbatim>\<open>
  for _, item := range list {
      if fmt.Sprintf("%v", attrValue) == fmt.Sprintf("%v", item) { return ... }
  }
  \<close>
  \<open>anyItemEquals\<close> tells whether the loop reaches its \<^verbatim>\<open>return\<close>.
\<close>

fun anyItemEquals :: "golib \<Rightarrow> val \<Rightarrow> val list \<Rightarrow> bool" where
  "anyItemEquals L attrValue [] = False"
| "anyItemEquals L attrValue (item # list) =
     (if Sprint L attrValue = Sprint L item then True else anyItemEquals L attrValue list)"

text \<open>
  The \<^verbatim>\<open>switch operator\<close> of \<^verbatim>\<open>matchesRule\<close>, with the final \<^verbatim>\<open>return false\<close> for an
  operator that no case names.
\<close>

definition applyOperator :: "golib \<Rightarrow> string \<Rightarrow> val \<Rightarrow> val \<Rightarrow> bool" where
  "applyOperator L operator attrValue ruleValue =
     (if operator = ''equals'' then Sprint L attrValue = Sprint L ruleValue
      else if operator = ''not_equals'' then Sprint L attrValue \<noteq> Sprint L ruleValue
      else if operator = ''contains'' then
        (case (attrValue, ruleValue) of
           (VString attrStr, VString ruleStr) \<Rightarrow> Contains attrStr ruleStr
         | _ \<Rightarrow> False)
      else if operator = ''not_contains'' then
        (case (attrValue, ruleValue) of
           (VString attrStr, VString ruleStr) \<Rightarrow> \<not> Contains attrStr ruleStr
         | _ \<Rightarrow> False)
      else if operator = ''gt'' then
        float64_less L (toFloat L ruleValue) (toFloat L attrValue)
      else if operator = ''lt'' then
        float64_less L (toFloat L attrValue) (toFloat L ruleValue)
      else if operator = ''in'' then
        (case ruleValue of
           VSlice list \<Rightarrow> anyItemEquals L attrValue list
         | _ \<Rightarrow> False)
      else if operator = ''not_in'' then
        (case ruleValue of
           VSlice list \<Rightarrow> \<not> anyItemEquals L attrValue list
         | _ \<Rightarrow> True)
      else if operator = ''always'' then True
      else False)"

text \<open>
  \<^verbatim>\<open>
  func matchesRule(rule Rule, context map[string]interface{}) bool {
      attribute := rule.Attribute; operator := rule.Operator; ruleValue := rule.Value
      attrValue, ok := context[attribute]
      if !ok {
          if attrs, ok := context["attributes"].(map[string]interface{}); ok {
              attrValue, ok = attrs[attribute]
              if !ok { return false }
          } else { return false }
      }
      switch operator { ... }
      return false
  }
  \<close>
\<close>

definition matchesRule :: "golib \<Rightarrow> Rule \<Rightarrow> ctx \<Rightarrow> bool" where
  "matchesRule L rule context =
     (let attribute = Attribute rule; operator = Operator rule; ruleValue = Value rule
      in case map_of context attribute of
           Some attrValue \<Rightarrow> applyOperator L operator attrValue ruleValue
         | None \<Rightarrow>
             (case map_of context ''attributes'' of
                Some (VMap attrs) \<Rightarrow>
                  (case map_of attrs attribute of
                     Some attrValue \<Rightarrow> applyOperator L operator attrValue ruleValue
                   | None \<Rightarrow> False)
              | _ \<Rightarrow> False))"

section \<open>Flag evaluation\<close>

text \<open>
  \<^verbatim>\<open>
  func getOffValue(flagType string) interface{} {
      switch flagType {
      case "BOOLEAN": return false
      case "STRING":  return ""
      case "NUMBER":  return float64(0)
      case "JSON":    return nil
      default:        return nil
      }
  }
  \<close>
\<close>

definition getOffValue :: "string \<Rightarrow> val" where
  "getOffValue flagType =
     (if flagType = ''BOOLEAN'' then VBool False
      else if flagType = ''STRING'' then VString []
      else if flagType = ''NUMBER'' then VFloat64 0
      else if flagType = ''JSON'' then VNil
      else VNil)"

text \<open>
  \<^verbatim>\<open>
  userID := ""
  if id, ok := context["user_id"].(string); ok {
      userID = id
  } else if id, ok := context["userId"].(string); ok {
      userID = id
  }
  \<close>
\<close>

definition extractUserID :: "ctx \<Rightarrow> string" where
  "extractUserID context =
     (case map_of context ''user_id'' of
        Some (VString uid) \<Rightarrow> uid
      | _ \<Rightarrow> (case map_of context ''userId'' of
                Some (VString uid) \<Rightarrow> uid
              | _ \<Rightarrow> []))"

text \<open>
  The loop over the rules of \<^verbatim>\<open>evaluateFlag\<close>:
  \<^verbatim>\<open>
  for _, rule := range config.Rules {
      if !matchesRule(rule, context) { continue }
      if rule.Percentage != nil && *rule.Percentage < 100 {
          if userID == "" || !isInRollout(userID, config.Key, *rule.Percentage) { continue }
      }
      if rule.RollValue != nil { return rule.RollValue }
      return config.DefaultValue
  }
  \<close>
  \<open>ruleLoop\<close> is \<open>Some v\<close> when the loop returns \<open>v\<close> and \<open>None\<close> when it runs to its
  end.
\<close>

fun ruleLoop :: "golib \<Rightarrow> FlagConfig \<Rightarrow> ctx \<Rightarrow> string \<Rightarrow> Rule list \<Rightarrow> val option" where
  "ruleLoop L config context userID [] = None"
| "ruleLoop L config context userID (rule # rules) =
     (if \<not> matchesRule L rule context then ruleLoop L config context userID rules
      else if (case Percentage rule of
                 Some p \<Rightarrow> p < 100 \<and> (userID = [] \<or> \<not> isInRollout L userID (Key config) p)
               | None \<Rightarrow> False)
      then ruleLoop L config context userID rules
      else if RollValue rule \<noteq> VNil then Some (RollValue rule)
      else Some (DefaultValue config))"

text \<open>
  \<^verbatim>\<open>
  func evaluateFlag(config FlagConfig, context map[string]interface{}) interface{} {
      if !config.Enabled { return config.DefaultValue }
      userID := ...
      for _, rule := range config.Rules { ... }
      if config.RolloutPercentage > 0 && userID != "" {
          if isInRollout(userID, config.Key, config.RolloutPercentage) {
              return config.DefaultValue
          }
          return getOffValue(config.Type)
      }
      return config.DefaultValue
  }
  \<close>
\<close>

definition evaluateFlag :: "golib \<Rightarrow> FlagConfig \<Rightarrow> ctx \<Rightarrow> val" where
  "evaluateFlag L config context =
     (if \<not> Enabled config then DefaultValue config
      else
        (let userID = extractUserID context
         in case ruleLoop L config context userID (Rules config) of
              Some v \<Rightarrow> v
            | None \<Rightarrow>
                (if RolloutPercentage config > 0 \<and> userID \<noteq> [] then
                   (if isInRollout L userID (Key config) (RolloutPercentage config)
                    then DefaultValue config
                    else getOffValue (Type config))
                 else DefaultValue config)))"

section \<open>The client: cached catalog, typed accessors, refresh\<close>

text \<open>
  The sources hold two revisions of \<^verbatim>\<open>client.go\<close>: the file of that name, and a later
  one whose Go text follows the documentation in the file \<^verbatim>\<open>README.md\<close>. Both have the
  same accessors and the same steps of the refresh; the later one adds the time of the
  last successful fetch (\<^verbatim>\<open>lastUpdatedAt\<close>), the staleness alarm (\<^verbatim>\<open>staleFired\<close>,
  \<^verbatim>\<open>checkStaleness\<close>) and its callback (\<^verbatim>\<open>onStale\<close>, \<^verbatim>\<open>maxStaleAge\<close>). The record
  below is the \<^verbatim>\<open>Client\<close> struct of the later revision, whose fields include those of
  the earlier one. \<open>fetchFlags\<close> is the refresh of the earlier revision and
  \<open>fetchFlagsStale\<close> the function of the same name of the later one.

  A point in time is a number of nanoseconds counted from Go's zero \<^verbatim>\<open>time.Time\<close>, so
  \<^verbatim>\<open>t.IsZero()\<close> is \<open>t = 0\<close>; a \<^verbatim>\<open>time.Duration\<close> is a number of nanoseconds.
  A callback field is modelled by whether it is set (not nil); calling it is recorded as
  an event. The lock, the stop channel, the wait group and the HTTP client are not
  modelled: one refresh is one call of \<open>fetchFlags\<close> on the outcome of its HTTP
  exchange, and the polling goroutine is the only writer after initialisation.
\<close>

type_synonym catalog = "string \<Rightarrow> FlagConfig option"

datatype goerror =
    LibError string
  | StatusError int string

text \<open>
  \<open>LibError\<close> is an error returned by \<^verbatim>\<open>net/http\<close> or \<^verbatim>\<open>encoding/json\<close>;
  \<open>StatusError code body\<close> is
  \<^verbatim>\<open>fmt.Errorf("API returned status %d: %s", resp.StatusCode, string(body))\<close>.
\<close>

datatype event =
    OnErrorCall goerror
  | OnStaleCall int int

record Client =
  apiKey :: string
  apiURL :: string
  pollingInterval :: int
  onError :: bool
  onStale :: bool
  maxStaleAge :: int
  flags :: catalog
  initialized :: bool
  lastUpdatedAt :: int
  staleFired :: bool

text \<open>
  What one HTTP exchange yields: \<^verbatim>\<open>http.NewRequest\<close> fails, or \<^verbatim>\<open>httpClient.Do\<close> fails, or
  there is a response with its status code, the body \<^verbatim>\<open>io.ReadAll\<close> reads, and what
  \<^verbatim>\<open>json.NewDecoder(resp.Body).Decode(&flagsResp)\<close> gives on that body: an error, or
  the decoded \<^verbatim>\<open>flagsResp.Flags\<close>.
\<close>

datatype exchange =
    NewRequestFails goerror
  | DoFails goerror
  | Response int string "goerror + catalog"

text \<open>
  \<^verbatim>\<open>
  func (c *Client) getFlagConfig(key string) (FlagConfig, bool) {
      config, ok := c.flags[key]
      return config, ok
  }
  \<close>
\<close>

definition getFlagConfig :: "Client \<Rightarrow> string \<Rightarrow> FlagConfig option" where
  "getFlagConfig c key = flags c key"

text \<open>
  \<^verbatim>\<open>
  func (c *Client) GetBooleanFlag(key string, defaultValue bool, context ...) bool {
      config, ok := c.getFlagConfig(key)
      if !ok { return defaultValue }
      value := evaluateFlag(config, context)
      if v, ok := value.(bool); ok { return v }
      return defaultValue
  }
  \<close>
\<close>

definition GetBooleanFlag :: "golib \<Rightarrow> Client \<Rightarrow> string \<Rightarrow> bool \<Rightarrow> ctx \<Rightarrow> bool" where
  "GetBooleanFlag L c key defaultValue context =
     (case getFlagConfig c key of
        None \<Rightarrow> defaultValue
      | Some config \<Rightarrow>
          (case evaluateFlag L config context of
             VBool v \<Rightarrow> v
           | _ \<Rightarrow> defaultValue))"

text \<open>\<^verbatim>\<open>GetStringFlag\<close>: the same with \<^verbatim>\<open>value.(string)\<close>.\<close>

definition GetStringFlag :: "golib \<Rightarrow> Client \<Rightarrow> string \<Rightarrow> string \<Rightarrow> ctx \<Rightarrow> string" where
  "GetStringFlag L c key defaultValue context =
     (case getFlagConfig c key of
        None \<Rightarrow> defaultValue
      | Some config \<Rightarrow>
          (case evaluateFlag L config context of
             VString v \<Rightarrow> v
           | _ \<Rightarrow> defaultValue))"

text \<open>
  \<^verbatim>\<open>
  func (c *Client) GetNumberFlag(key string, defaultValue float64, context ...) float64 {
      config, ok := c.getFlagConfig(key)
      if !ok { return defaultValue }
      value := evaluateFlag(config, context)
      switch v := value.(type) {
      case float64: return v
      case float32: return float64(v)
      case int:     return float64(v)
      case int64:   return float64(v)
      default:      return defaultValue
      }
  }
  \<close>
\<close>

definition GetNumberFlag :: "golib \<Rightarrow> Client \<Rightarrow> string \<Rightarrow> float64 \<Rightarrow> ctx \<Rightarrow> float64" where
  "GetNumberFlag L c key defaultValue context =
     (case getFlagConfig c key of
        None \<Rightarrow> defaultValue
      | Some config \<Rightarrow>
          (case evaluateFlag L config context of
             VFloat64 v \<Rightarrow> v
           | VFloat32 v \<Rightarrow> float64_of_float32 L v
           | VInt v \<Rightarrow> float64_of_int L v
           | VInt64 v \<Rightarrow> float64_of_int L v
           | _ \<Rightarrow> defaultValue))"

text \<open>
  \<^verbatim>\<open>
  func (c *Client) GetJSONFlag(key string, defaultValue interface{}, context ...) interface{} {
      config, ok := c.getFlagConfig(key)
      if !ok { return defaultValue }
      value := evaluateFlag(config, context)
      if value != nil { return value }
      return defaultValue
  }
  \<close>
\<close>

definition GetJSONFlag :: "golib \<Rightarrow> Client \<Rightarrow> string \<Rightarrow> val \<Rightarrow> ctx \<Rightarrow> val" where
  "GetJSONFlag L c key defaultValue context =
     (case getFlagConfig c key of
        None \<Rightarrow> defaultValue
      | Some config \<Rightarrow>
          (let v = evaluateFlag L config context
           in if v \<noteq> VNil then v else defaultValue))"

text \<open>
  The refresh of the earlier revision. Each failing step calls \<^verbatim>\<open>c.onError\<close> when it is
  set and returns; only the last step assigns \<^verbatim>\<open>c.flags = flagsResp.Flags\<close>.
  \<^verbatim>\<open>
  func (c *Client) fetchFlags() {
      req, err := http.NewRequest("GET", c.apiURL+"/api/v1/sdk/flags", nil)
      if err != nil { if c.onError != nil { c.onError(err) }; return }
      req.Header.Set("X-API-Key", c.apiKey)
      resp, err := c.httpClient.Do(req)
      if err != nil { if c.onError != nil { c.onError(err) }; return }
      defer resp.Body.Close()
      if resp.StatusCode != http.StatusOK {
          if c.onError != nil {
              body, _ := io.ReadAll(resp.Body)
              c.onError(fmt.Errorf("API returned status %d: %s", resp.StatusCode, string(body)))
          }
          return
      }
      var flagsResp FlagsResponse
      if err := json.NewDecoder(resp.Body).Decode(&flagsResp); err != nil {
          if c.onError != nil { c.onError(err) }
          return
      }
      c.mu.Lock(); c.flags = flagsResp.Flags; c.mu.Unlock()
  }
  \<close>
\<close>

definition callOnError :: "Client \<Rightarrow> goerror \<Rightarrow> event list" where
  "callOnError c err = (if onError c then [OnErrorCall err] else [])"

definition fetchFlags :: "Client \<Rightarrow> exchange \<Rightarrow> Client \<times> event list" where
  "fetchFlags c x =
     (case x of
        NewRequestFails err \<Rightarrow> (c, callOnError c err)
      | DoFails err \<Rightarrow> (c, callOnError c err)
      | Response StatusCode body decoded \<Rightarrow>
          (if StatusCode \<noteq> 200 then (c, callOnError c (StatusError StatusCode body))
           else
             (case decoded of
                Inl err \<Rightarrow> (c, callOnError c err)
              | Inr flagsResp \<Rightarrow> (c\<lparr>flags := flagsResp\<rparr>, []))))"

text \<open>
  \<^verbatim>\<open>time.Since(t)\<close> is \<^verbatim>\<open>time.Now().Sub(t)\<close>; a \<^verbatim>\<open>Duration\<close> is a 64-bit integer, and
  \<^verbatim>\<open>Sub\<close> returns the largest or the smallest duration when the difference does not fit.
\<close>

definition Since :: "int \<Rightarrow> int \<Rightarrow> int" where
  "Since now t = max (- (2 ^ 63)) (min (2 ^ 63 - 1) (now - t))"

text \<open>
  The later revision:
  \<^verbatim>\<open>
  func (c *Client) checkStaleness() {
      c.mu.Lock(); defer c.mu.Unlock()
      if c.lastUpdatedAt.IsZero() { return }
      age := time.Since(c.lastUpdatedAt)
      if age > c.maxStaleAge && !c.staleFired {
          c.staleFired = true
          if c.onStale != nil { c.onStale(c.lastUpdatedAt, age) }
      }
  }
  \<close>
  \<open>now\<close> is the reading of the clock during the call.
\<close>

definition checkStaleness :: "Client \<Rightarrow> int \<Rightarrow> Client \<times> event list" where
  "checkStaleness c now =
     (if lastUpdatedAt c = 0 then (c, [])
      else
        (let age = Since now (lastUpdatedAt c)
         in if age > maxStaleAge c \<and> \<not> staleFired c
            then (c\<lparr>staleFired := True\<rparr>,
                  if onStale c then [OnStaleCall (lastUpdatedAt c) age] else [])
            else (c, [])))"

text \<open>
  Its refresh is the one above with \<^verbatim>\<open>c.checkStaleness()\<close> after the error callback on
  each failing step, and with this last step:
  \<^verbatim>\<open>
  c.mu.Lock()
  c.flags = flagsResp.Flags
  c.lastUpdatedAt = time.Now()
  c.staleFired = false
  c.mu.Unlock()
  \<close>
\<close>

definition failedStep :: "Client \<Rightarrow> goerror \<Rightarrow> int \<Rightarrow> Client \<times> event list" where
  "failedStep c err now =
     (let (c', stale) = checkStaleness c now in (c', callOnError c err @ stale))"

definition fetchFlagsStale :: "Client \<Rightarrow> exchange \<Rightarrow> int \<Rightarrow> Client \<times> event list" where
  "fetchFlagsStale c x now =
     (case x of
        NewRequestFails err \<Rightarrow> failedStep c err now
      | DoFails err \<Rightarrow> failedStep c err now
      | Response StatusCode body decoded \<Rightarrow>
          (if StatusCode \<noteq> 200 then failedStep c (StatusError StatusCode body) now
           else
             (case decoded of
                Inl err \<Rightarrow> failedStep c err now
              | Inr flagsResp \<Rightarrow>
                  (c\<lparr>flags := flagsResp, lastUpdatedAt := now, staleFired := False\<rparr>, []))))"

text \<open>
  The polling goroutine calls the refresh at each tick until the client is closed:
  \<^verbatim>\<open>
  for {
      select {
      case <-ticker.C: c.fetchFlags()
      case <-c.stopChan: return
      }
  }
  \<close>
  A run of it is the list of the exchanges of its ticks, each with the reading of the
  clock; the result is the client after the last tick and the callbacks in the order of
  their calls.
\<close>

fun polling :: "Client \<Rightarrow> (exchange \<times> int) list \<Rightarrow> Client \<times> event list" where
  "polling c [] = (c, [])"
| "polling c ((x, now) # ticks) =
     (let (c1, evs1) = fetchFlagsStale c x now;
          (c2, evs2) = polling c1 ticks
      in (c2, evs1 @ evs2))"

section \<open>Notions of the specification\<close>

text \<open>
  The bytes of a sequence as one unsigned number, most significant byte first, and
  the first \<open>n\<close> bytes of a digest.
\<close>

definition big_endian :: "byte list \<Rightarrow> nat" where
  "big_endian bs = foldl (\<lambda>acc b. 256 * acc + unat b) 0 bs"

definition first_bytes :: "nat \<Rightarrow> (nat \<Rightarrow> byte) \<Rightarrow> byte list" where
  "first_bytes n h = map h [0..<n]"

text \<open>
  A rule qualifies for a context when the rule matcher accepts it and, if it carries a
  percentage below 100, the user id of the context is not empty and is in the rollout of
  that percentage. The outcome of a rule is its \<open>rollValue\<close> if it has one (is not nil),
  else the default value of the flag.
\<close>

definition qualifies :: "golib \<Rightarrow> FlagConfig \<Rightarrow> ctx \<Rightarrow> Rule \<Rightarrow> bool" where
  "qualifies L config context rule =
     (matchesRule L rule context \<and>
      (case Percentage rule of
         None \<Rightarrow> True
       | Some p \<Rightarrow> 100 \<le> p \<or>
           (extractUserID context \<noteq> [] \<and> isInRollout L (extractUserID context) (Key config) p)))"

definition outcome :: "FlagConfig \<Rightarrow> Rule \<Rightarrow> val" where
  "outcome config rule = (if RollValue rule \<noteq> VNil then RollValue rule else DefaultValue config)"

text \<open>
  The dynamic types the typed accessors accept: a Go \<^verbatim>\<open>bool\<close>; a Go \<^verbatim>\<open>string\<close>; one of
  the four number types of the accessor's type switch.
\<close>

definition isBool :: "val \<Rightarrow> bool" where
  "isBool v = (case v of VBool b \<Rightarrow> True | _ \<Rightarrow> False)"

definition isString :: "val \<Rightarrow> bool" where
  "isString v = (case v of VString s \<Rightarrow> True | _ \<Rightarrow> False)"

definition isNumber :: "val \<Rightarrow> bool" where
  "isNumber v =
     (case v of VFloat64 x \<Rightarrow> True | VFloat32 x \<Rightarrow> True | VInt i \<Rightarrow> True | VInt64 i \<Rightarrow> True
      | _ \<Rightarrow> False)"

text \<open>
  The result of one refresh as the specification sees it: the error of a failed fetch, or
  the catalog of a successful one. A refresh fails when the request cannot be built or
  sent, when the status is not 200, or when the body does not decode.
\<close>

definition fetched :: "exchange \<Rightarrow> goerror + catalog" where
  "fetched x =
     (case x of
        NewRequestFails err \<Rightarrow> Inl err
      | DoFails err \<Rightarrow> Inl err
      | Response StatusCode body decoded \<Rightarrow>
          (if StatusCode \<noteq> 200 then Inl (StatusError StatusCode body) else decoded))"

definition failed :: "exchange \<Rightarrow> bool" where
  "failed x = (case fetched x of Inl err \<Rightarrow> True | Inr new \<Rightarrow> False)"

text \<open>
  The calls of the stale callback among the events of a run, the number of successful
  refreshes of a run, and the age check of \<open>checkStaleness\<close>: the catalog has been
  fetched before and is older than the maximum age.
\<close>

definition isStaleCall :: "event \<Rightarrow> bool" where
  "isStaleCall e = (case e of OnStaleCall t age \<Rightarrow> True | OnErrorCall err \<Rightarrow> False)"

definition staleCalls :: "event list \<Rightarrow> event list" where
  "staleCalls evs = filter isStaleCall evs"

definition successes :: "(exchange \<times> int) list \<Rightarrow> nat" where
  "successes ticks = length (filter (\<lambda>t. \<not> failed (fst t)) ticks)"

definition ageExceeded :: "Client \<Rightarrow> int \<Rightarrow> bool" where
  "ageExceeded c now = (lastUpdatedAt c \<noteq> 0 \<and> Since now (lastUpdatedAt c) > maxStaleAge c)"

section \<open>Inputs for the examples\<close>

text \<open>
  The theorems below hold for every library. The closed examples that follow them need
  a library to be stated: \<open>exampleLib\<close> takes constant functions. Each example is
  chosen so that the code calls no library function on it: no operand is a floating-point
  number, no operator is \<^verbatim>\<open>gt\<close> or \<^verbatim>\<open>lt\<close>, and every percentage is absent, at least
  100, or met with an empty user id, so that no digest is computed.
\<close>

definition exampleLib :: golib where
  "exampleLib = \<lparr>Sum256 = (\<lambda>bs i. 0), ParseFloat = (\<lambda>s. 0), float64_of_float32 = (\<lambda>x. 0),
     float64_of_int = (\<lambda>x. 0), float64_less = (\<lambda>x y. False),
     FormatFloat64 = (\<lambda>x. []), FormatFloat32 = (\<lambda>x. [])\<rparr>"

text \<open>
  A string flag with the default value \<open>control\<close> and rules on the attribute
  \<open>plan\<close>, each with a roll value of its own, and a context that has the plan
  \<open>pro\<close> and no user id.
\<close>

definition ruleEnterprise :: Rule where
  "ruleEnterprise = \<lparr>Attribute = ''plan'', Operator = ''equals'', Value = VString ''enterprise'',
     Percentage = None, RollValue = VString ''zero''\<rparr>"

definition rulePro :: Rule where
  "rulePro = \<lparr>Attribute = ''plan'', Operator = ''equals'', Value = VString ''pro'',
     Percentage = None, RollValue = VString ''first''\<rparr>"

definition ruleAlways :: Rule where
  "ruleAlways = \<lparr>Attribute = ''plan'', Operator = ''always'', Value = VNil,
     Percentage = None, RollValue = VString ''second''\<rparr>"

definition ruleGated :: Rule where
  "ruleGated = \<lparr>Attribute = ''plan'', Operator = ''equals'', Value = VString ''pro'',
     Percentage = Some 50, RollValue = VString ''gated''\<rparr>"

definition checkout :: "Rule list \<Rightarrow> FlagConfig" where
  "checkout rules = \<lparr>Key = ''checkout'', Type = ''STRING'', Enabled = True,
     DefaultValue = VString ''control'', Rules = rules, RolloutPercentage = 0\<rparr>"

definition proPlan :: ctx where
  "proPlan = [(''plan'', VString ''pro'')]"

text \<open>
  A client with one flag in its catalog, fetched at time 1000, with a maximum age of
  300, and four exchanges: a refused connection, a 503 response, a body that does not
  decode, and a response with an empty catalog.
\<close>

definition darkMode :: FlagConfig where
  "darkMode = \<lparr>Key = ''dark-mode'', Type = ''BOOLEAN'', Enabled = True,
     DefaultValue = VBool True, Rules = [], RolloutPercentage = 0\<rparr>"

definition exampleClient :: Client where
  "exampleClient = \<lparr>apiKey = ''tt_live_key'', apiURL = ''https://api.toggletown.com'',
     pollingInterval = 30, onError = True, onStale = True, maxStaleAge = 300,
     flags = [''dark-mode'' \<mapsto> darkMode], initialized = True,
     lastUpdatedAt = 1000, staleFired = False\<rparr>"

definition refused :: exchange where
  "refused = DoFails (LibError ''connection refused'')"

definition unavailable :: exchange where
  "unavailable = Response 503 ''unavailable'' (Inl (LibError ''invalid character''))"

definition truncated :: exchange where
  "truncated = Response 200 ''{'' (Inl (LibError ''unexpected EOF''))"

definition emptyCatalog :: exchange where
  "emptyCatalog = Response 200 ''{}'' (Inr Map.empty)"

section \<open>Properties of the bucketing\<close>

lemma nat_or_shift:
  fixes lo :: nat
  assumes "lo < 2 ^ n"
  shows "push_bit n hi OR lo = hi * 2 ^ n + lo"
proof -
  have lo: "take_bit n lo = lo"
    using assms by (simp add: take_bit_nat_eq_self)
  have "\<not> bit (push_bit n hi) k \<or> \<not> bit lo k" for k
  proof (cases "k < n")
    case True
    then show ?thesis by (simp add: bit_push_bit_iff)
  next
    case False
    have "bit lo k = bit (take_bit n lo) k" by (simp only: lo)
    with False show ?thesis by (simp add: bit_take_bit_iff)
  qed
  then have "push_bit n hi + lo = push_bit n hi OR lo"
    by (rule disjunctive_add)
  then show ?thesis by (simp add: push_bit_eq_mult)
qed

lemma unat_push_ucast:
  fixes x :: byte
  assumes "n + 8 \<le> 32"
  shows "unat (push_bit n (ucast x) :: 32 word) = unat x * 2 ^ n"
proof -
  have x: "unat x < 2 ^ 8"
    using unsigned_less [of x] by simp
  then have "unat x < 2 ^ 32"
    by simp
  then have t: "take_bit 32 (unat x) = unat x"
    by (simp add: take_bit_nat_eq_self)
  have "unat x * 2 ^ n < 2 ^ 8 * 2 ^ n"
    using x by simp
  also have "\<dots> = 2 ^ (n + 8)"
    by (simp add: power_add)
  also have "\<dots> \<le> (2::nat) ^ 32"
    using assms by (intro power_increasing) simp_all
  finally have small: "take_bit 32 (unat x * 2 ^ n) = unat x * 2 ^ n"
    by (simp add: take_bit_nat_eq_self)
  have "unat (push_bit n (ucast x) :: 32 word)
        = take_bit 32 (push_bit n (take_bit 32 (unat x)))"
    by (simp add: unsigned_push_bit_eq unsigned_ucast_eq)
  also have "\<dots> = take_bit 32 (unat x * 2 ^ n)"
    by (simp only: t push_bit_eq_mult)
  finally show ?thesis
    by (simp only: small)
qed

lemma be32_unat:
  fixes a b c d :: byte
  shows "unat (push_bit 24 (ucast a) OR push_bit 16 (ucast b) OR
               push_bit 8 (ucast c) OR ucast d :: 32 word)
         = unat a * 2 ^ 24 + unat b * 2 ^ 16 + unat c * 2 ^ 8 + unat d"
proof -
  have A: "unat a < 2 ^ 8" "unat b < 2 ^ 8" "unat c < 2 ^ 8" "unat d < 2 ^ 8"
    using unsigned_less [of a] unsigned_less [of b] unsigned_less [of c] unsigned_less [of d]
    by simp_all
  have d: "unat (ucast d :: 32 word) = unat d"
    using A by (simp add: unsigned_ucast_eq take_bit_nat_eq_self)
  have c: "unat (push_bit 8 (ucast c) :: 32 word) = unat c * 2 ^ 8"
    by (rule unat_push_ucast) simp
  have b: "unat (push_bit 16 (ucast b) :: 32 word) = unat b * 2 ^ 16"
    by (rule unat_push_ucast) simp
  have a: "unat (push_bit 24 (ucast a) :: 32 word) = unat a * 2 ^ 24"
    by (rule unat_push_ucast) simp
  have cd: "unat c * 2 ^ 8 OR unat d = unat c * 2 ^ 8 + unat d"
    using nat_or_shift [of "unat d" 8 "unat c"] A by (simp add: push_bit_eq_mult)
  have bcd: "unat b * 2 ^ 16 OR (unat c * 2 ^ 8 + unat d) = unat b * 2 ^ 16 + (unat c * 2 ^ 8 + unat d)"
    using nat_or_shift [of "unat c * 2 ^ 8 + unat d" 16 "unat b"] A by (simp add: push_bit_eq_mult)
  have abcd: "unat a * 2 ^ 24 OR (unat b * 2 ^ 16 + (unat c * 2 ^ 8 + unat d))
       = unat a * 2 ^ 24 + (unat b * 2 ^ 16 + (unat c * 2 ^ 8 + unat d))"
    using nat_or_shift [of "unat b * 2 ^ 16 + (unat c * 2 ^ 8 + unat d)" 24 "unat a"] A
    by (simp add: push_bit_eq_mult)
  show ?thesis
    by (simp only: unsigned_or_eq a b c d or.assoc cd bcd abcd add.assoc)
qed


lemma big_endian_first4:
  "big_endian (first_bytes 4 h)
     = unat (h 0) * 2 ^ 24 + unat (h 1) * 2 ^ 16 + unat (h 2) * 2 ^ 8 + unat (h 3)"
proof -
  have "[0..<4] = [0, 1, 2, 3::nat]"
    by (simp add: upt_rec)
  then show ?thesis
    by (simp add: big_endian_def first_bytes_def)
qed

lemma hashString_unat:
  "hashString L input =
     int ((unat (Sum256 L (bytes_of input) 0) * 2 ^ 24 + unat (Sum256 L (bytes_of input) 1) * 2 ^ 16
           + unat (Sum256 L (bytes_of input) 2) * 2 ^ 8 + unat (Sum256 L (bytes_of input) 3)) mod 100)"
proof -
  have "uint (w mod 100) = int (unat w mod 100)" for w :: "32 word"
    by (simp add: uint_mod unat_mod zmod_int flip: uint_nat)
  then show ?thesis
    by (simp only: hashString_def Let_def be32_unat)
qed

lemma hashString_range: "0 \<le> hashString L input \<and> hashString L input < 100"
  by (simp add: hashString_unat)

text \<open>
  C1. For every pair of strings \<open>userId\<close>, \<open>flagKey\<close>, the bucket the code computes for
  \<open>userId:flagKey\<close> is the number that the first four bytes of the SHA-256 digest of
  that string's bytes denote, most significant byte first, taken modulo 100. It is a
  function of the two strings (and of nothing else), and it lies in \<open>[0, 100)\<close>.
\<close>

theorem hashString_bucket:
  "hashString L (rolloutKey userId flagKey)
     = int (big_endian (first_bytes 4 (Sum256 L (bytes_of (userId @ '':'' @ flagKey)))) mod 100)
   \<and> 0 \<le> hashString L (rolloutKey userId flagKey)
   \<and> hashString L (rolloutKey userId flagKey) < 100"
proof -
  have "hashString L (rolloutKey userId flagKey)
     = int (big_endian (first_bytes 4 (Sum256 L (bytes_of (userId @ '':'' @ flagKey)))) mod 100)"
    by (simp only: hashString_unat big_endian_first4 rolloutKey_def)
  then show ?thesis
    by simp
qed

text \<open>
  C2. For every \<open>userId\<close>, \<open>flagKey\<close> and integer \<open>percentage\<close>: \<open>isInRollout\<close> is
  false when \<open>percentage \<le> 0\<close>, true when \<open>percentage \<ge> 100\<close>, and otherwise true
  exactly when the bucket of \<open>userId:flagKey\<close> is below \<open>percentage\<close>.
\<close>

theorem isInRollout_thresholds:
  "isInRollout L userId flagKey percentage =
     (if percentage \<le> 0 then False
      else if percentage \<ge> 100 then True
      else hashString L (rolloutKey userId flagKey) < percentage)"
  using hashString_range [of L "rolloutKey userId flagKey"]
  by (simp add: isInRollout_def Let_def)

section \<open>Properties of the rule matcher\<close>

text \<open>
  C6. For every rule and context, the attribute is looked up in this order. If the
  context has the rule's attribute, its value there is used. Otherwise, if the context has
  a nested mapping under \<open>attributes\<close> and that mapping has the attribute, the nested
  value is used. If the attribute is in neither place (the nested mapping is missing, is
  not a mapping, or lacks the attribute), \<open>matchesRule\<close> is false whatever the
  operator of the rule, \<^verbatim>\<open>always\<close> included.
\<close>

theorem attribute_lookup_order:
  "(map_of context (Attribute rule) = Some v \<longrightarrow>
      matchesRule L rule context = applyOperator L (Operator rule) v (Value rule))
   \<and> (map_of context (Attribute rule) = None
        \<and> map_of context ''attributes'' = Some (VMap attrs)
        \<and> map_of attrs (Attribute rule) = Some v \<longrightarrow>
      matchesRule L rule context = applyOperator L (Operator rule) v (Value rule))
   \<and> (map_of context (Attribute rule) = None
        \<and> (\<forall>attrs. map_of context ''attributes'' = Some (VMap attrs) \<longrightarrow>
               map_of attrs (Attribute rule) = None) \<longrightarrow>
      (\<forall>operator. \<not> matchesRule L (rule\<lparr>Operator := operator\<rparr>) context))"
  by (auto simp: matchesRule_def Let_def split: option.splits val.splits)

theorem attribute_lookup_order_witness:
  "matchesRule exampleLib
     \<lparr>Attribute = ''plan'', Operator = ''equals'', Value = VString ''pro'',
      Percentage = None, RollValue = VNil\<rparr>
     [(''plan'', VString ''pro''), (''attributes'', VMap [(''plan'', VString ''free'')])]
   \<and> matchesRule exampleLib
     \<lparr>Attribute = ''plan'', Operator = ''equals'', Value = VString ''pro'',
      Percentage = None, RollValue = VNil\<rparr>
     [(''user_id'', VString ''u1''), (''attributes'', VMap [(''plan'', VString ''pro'')])]
   \<and> \<not> matchesRule exampleLib
     \<lparr>Attribute = ''plan'', Operator = ''always'', Value = VString ''pro'',
      Percentage = None, RollValue = VNil\<rparr>
     [(''user_id'', VString ''u1''), (''attributes'', VMap [(''country'', VString ''US'')])]
   \<and> \<not> matchesRule exampleLib
     \<lparr>Attribute = ''plan'', Operator = ''always'', Value = VString ''pro'',
      Percentage = None, RollValue = VNil\<rparr>
     [(''user_id'', VString ''u1''), (''attributes'', VString ''plan'')]"
proof -
  let ?eq = "\<lparr>Attribute = ''plan'', Operator = ''equals'', Value = VString ''pro'',
      Percentage = None, RollValue = VNil\<rparr>"
  let ?al = "\<lparr>Attribute = ''plan'', Operator = ''always'', Value = VString ''pro'',
      Percentage = None, RollValue = VNil\<rparr>"
  let ?c1 = "[(''plan'', VString ''pro''), (''attributes'', VMap [(''plan'', VString ''free'')])]"
  let ?c2 = "[(''user_id'', VString ''u1''), (''attributes'', VMap [(''plan'', VString ''pro'')])]"
  let ?c3 = "[(''user_id'', VString ''u1''), (''attributes'', VMap [(''country'', VString ''US'')])]"
  let ?c4 = "[(''user_id'', VString ''u1''), (''attributes'', VString ''plan'')]"
  have 1: "matchesRule exampleLib ?eq ?c1"
    using attribute_lookup_order [of ?c1 ?eq "VString ''pro''" exampleLib]
    by (simp add: applyOperator_def)
  have 2: "matchesRule exampleLib ?eq ?c2"
    using attribute_lookup_order [of ?c2 ?eq "VString ''pro''" exampleLib "[(''plan'', VString ''pro'')]"]
    by (simp add: applyOperator_def)
  have 3: "\<not> matchesRule exampleLib ?al ?c3"
    using attribute_lookup_order [of ?c3 ?al _ exampleLib] by simp
  have 4: "\<not> matchesRule exampleLib ?al ?c4"
    using attribute_lookup_order [of ?c4 ?al _ exampleLib] by simp
  from 1 2 3 4 show ?thesis by simp
qed

section \<open>Properties of the evaluation\<close>

lemma ruleLoop_skip:
  "\<not> qualifies L config context rule \<Longrightarrow>
   ruleLoop L config context (extractUserID context) (rule # rules)
     = ruleLoop L config context (extractUserID context) rules"
  by (auto simp: qualifies_def split: option.splits)

lemma ruleLoop_hit:
  "qualifies L config context rule \<Longrightarrow>
   ruleLoop L config context (extractUserID context) (rule # rules) = Some (outcome config rule)"
  by (auto simp: qualifies_def outcome_def split: option.splits)

lemma ruleLoop_skip_prefix:
  "\<forall>r \<in> set earlier. \<not> qualifies L config context r \<Longrightarrow>
   ruleLoop L config context (extractUserID context) (earlier @ rules)
     = ruleLoop L config context (extractUserID context) rules"
proof (induction earlier)
  case Nil
  then show ?case by simp
next
  case (Cons r earlier)
  then have "\<not> qualifies L config context r"
    by simp
  then have "ruleLoop L config context (extractUserID context) ((r # earlier) @ rules)
      = ruleLoop L config context (extractUserID context) (earlier @ rules)"
    using ruleLoop_skip [of L config "context" r "earlier @ rules"] by simp
  with Cons show ?case by simp
qed

lemma ruleLoop_config:
  assumes "Key config' = Key config" and "DefaultValue config' = DefaultValue config"
  shows "ruleLoop L config' context userID rules = ruleLoop L config context userID rules"
  by (induction rules) (simp_all add: assms cong: option.case_cong)

lemma ruleLoop_Rules_update:
  "ruleLoop L (config\<lparr>Rules := rs\<rparr>) context userID rules
     = ruleLoop L config context userID rules"
  by (rule ruleLoop_config) simp_all

text \<open>
  C3. For every flag configuration with \<open>enabled = false\<close> and every context,
  \<open>evaluateFlag\<close> returns the configuration's default value; whatever rules and
  whatever rollout percentage the configuration carries, the result is the same.
\<close>

theorem disabled_returns_default:
  assumes "\<not> Enabled config"
  shows "evaluateFlag L config context = DefaultValue config
       \<and> evaluateFlag L (config\<lparr>Rules := rules, RolloutPercentage := percentage\<rparr>) context
           = DefaultValue config"
  using assms by (simp add: evaluateFlag_def)

theorem disabled_returns_default_witness:
  "\<not> Enabled \<lparr>Key = [], Type = ''BOOLEAN'', Enabled = False, DefaultValue = VBool True,
        Rules = [], RolloutPercentage = 0\<rparr>
   \<and> evaluateFlag exampleLib
        \<lparr>Key = [], Type = ''BOOLEAN'', Enabled = False, DefaultValue = VBool True,
         Rules = [], RolloutPercentage = 0\<rparr> [] = VBool True
   \<and> evaluateFlag exampleLib
        \<lparr>Key = [], Type = ''BOOLEAN'', Enabled = False, DefaultValue = VBool True,
         Rules = [\<lparr>Attribute = ''plan'', Operator = ''always'', Value = VNil,
                   Percentage = None, RollValue = VBool False\<rparr>],
         RolloutPercentage = 100\<rparr> [] = VBool True"
  using disabled_returns_default
    [of "\<lparr>Key = [], Type = ''BOOLEAN'', Enabled = False, DefaultValue = VBool True,
          Rules = [], RolloutPercentage = 0\<rparr>" exampleLib "[]" 100
        "[\<lparr>Attribute = ''plan'', Operator = ''always'', Value = VNil,
                   Percentage = None, RollValue = VBool False\<rparr>]"]
  by simp

text \<open>
  C4. Rules are tried in the order of the list and the first rule that qualifies decides:
  for every enabled configuration whose rules are \<open>earlier @ rule # later\<close>, where no
  rule of \<open>earlier\<close> qualifies and \<open>rule\<close> does, \<open>evaluateFlag\<close> returns the outcome
  of \<open>rule\<close> (its \<open>rollValue\<close> if present, else the default value). The rules after it
  are not consulted: the result is the same for any other rules \<open>others\<close> in their
  place, so a second qualifying rule further down the list has no effect.
\<close>

theorem first_qualifying_rule_wins:
  assumes "Enabled config"
    and "Rules config = earlier @ rule # later"
    and "\<forall>r \<in> set earlier. \<not> qualifies L config context r"
    and "qualifies L config context rule"
  shows "evaluateFlag L config context = outcome config rule
       \<and> evaluateFlag L (config\<lparr>Rules := earlier @ rule # others\<rparr>) context = outcome config rule"
proof -
  have hit: "ruleLoop L config context (extractUserID context) (earlier @ rule # rest)
      = Some (outcome config rule)" for rest
    by (simp only: ruleLoop_skip_prefix [OF assms(3)] ruleLoop_hit [OF assms(4)])
  have "ruleLoop L (config\<lparr>Rules := earlier @ rule # others\<rparr>) context (extractUserID context)
          (earlier @ rule # others) = Some (outcome config rule)"
    using hit [of others] by (simp only: ruleLoop_Rules_update)
  then show ?thesis
    using assms(1,2) hit [of later] by (simp add: evaluateFlag_def Let_def)
qed

theorem first_qualifying_rule_wins_witness:
  "\<not> qualifies exampleLib (checkout [ruleEnterprise, rulePro, ruleAlways]) proPlan ruleEnterprise
   \<and> qualifies exampleLib (checkout [ruleEnterprise, rulePro, ruleAlways]) proPlan rulePro
   \<and> qualifies exampleLib (checkout [ruleEnterprise, rulePro, ruleAlways]) proPlan ruleAlways
   \<and> evaluateFlag exampleLib (checkout [ruleEnterprise, rulePro, ruleAlways]) proPlan
       = VString ''first''
   \<and> evaluateFlag exampleLib (checkout [ruleEnterprise, rulePro]) proPlan = VString ''first''"
proof -
  let ?cfg = "checkout [ruleEnterprise, rulePro, ruleAlways]"
  have e: "Enabled ?cfg"
    by (simp add: checkout_def)
  have r: "Rules ?cfg = [ruleEnterprise] @ rulePro # [ruleAlways]"
    by (simp add: checkout_def)
  have q0: "\<not> qualifies exampleLib ?cfg proPlan ruleEnterprise"
    by (simp add: qualifies_def matchesRule_def applyOperator_def ruleEnterprise_def proPlan_def)
  then have n: "\<forall>r \<in> set [ruleEnterprise]. \<not> qualifies exampleLib ?cfg proPlan r"
    by simp
  have q1: "qualifies exampleLib ?cfg proPlan rulePro"
    by (simp add: qualifies_def matchesRule_def applyOperator_def rulePro_def proPlan_def)
  have q2: "qualifies exampleLib ?cfg proPlan ruleAlways"
    by (simp add: qualifies_def matchesRule_def applyOperator_def ruleAlways_def proPlan_def)
  have o: "outcome ?cfg rulePro = VString ''first''"
    by (simp add: outcome_def rulePro_def)
  have u: "?cfg\<lparr>Rules := [ruleEnterprise] @ rulePro # []\<rparr> = checkout [ruleEnterprise, rulePro]"
    by (simp add: checkout_def)
  show ?thesis
    using first_qualifying_rule_wins [OF e r n q1, of "[]"] q0 q1 q2
    by (simp only: o u) simp
qed

text \<open>
  C5. For every configuration and every context whose extracted user id is empty, a rule
  that carries a percentage below 100 does not qualify, whether or not its condition
  matches, and the evaluation goes on with the next rule: the result is the one the
  same configuration gives without that rule.
\<close>

theorem gated_rule_without_user_skipped:
  assumes "extractUserID context = []"
    and "Percentage rule = Some p" and "p < 100"
  shows "\<not> qualifies L config context rule
       \<and> evaluateFlag L (config\<lparr>Rules := before @ rule # after\<rparr>) context
           = evaluateFlag L (config\<lparr>Rules := before @ after\<rparr>) context"
proof -
  have nq: "\<not> qualifies L config context rule"
    using assms by (simp add: qualifies_def)
  have skip: "ruleLoop L config context [] (rule # rest) = ruleLoop L config context [] rest" for rest
    using assms by simp
  have "ruleLoop L config context [] (before @ rule # after)
      = ruleLoop L config context [] (before @ after)"
    by (induction before) (simp_all add: skip del: ruleLoop.simps(2), simp_all)
  then have "ruleLoop L (config\<lparr>Rules := before @ rule # after\<rparr>) context [] (before @ rule # after)
      = ruleLoop L (config\<lparr>Rules := before @ after\<rparr>) context [] (before @ after)"
    by (simp only: ruleLoop_Rules_update)
  then show ?thesis
    using nq assms(1) by (simp add: evaluateFlag_def Let_def cong: option.case_cong)
qed

theorem gated_rule_without_user_skipped_witness:
  "extractUserID proPlan = []
   \<and> matchesRule exampleLib ruleGated proPlan
   \<and> evaluateFlag exampleLib (checkout [ruleGated, ruleAlways]) proPlan = VString ''second''
   \<and> evaluateFlag exampleLib (checkout [ruleAlways]) proPlan = VString ''second''"
proof -
  have u: "extractUserID proPlan = []"
    by (simp add: extractUserID_def proPlan_def)
  have p: "Percentage ruleGated = Some 50"
    by (simp add: ruleGated_def)
  have m: "matchesRule exampleLib ruleGated proPlan"
    by (simp add: matchesRule_def applyOperator_def ruleGated_def proPlan_def)
  have c1: "(checkout [])\<lparr>Rules := [] @ ruleGated # [ruleAlways]\<rparr> = checkout [ruleGated, ruleAlways]"
    by (simp add: checkout_def)
  have c2: "(checkout [])\<lparr>Rules := [] @ [ruleAlways]\<rparr> = checkout [ruleAlways]"
    by (simp add: checkout_def)
  have v: "evaluateFlag exampleLib (checkout [ruleAlways]) proPlan = VString ''second''"
    by (simp add: evaluateFlag_def extractUserID_def matchesRule_def applyOperator_def
        checkout_def ruleAlways_def proPlan_def)
  have "evaluateFlag exampleLib (checkout [ruleGated, ruleAlways]) proPlan
      = evaluateFlag exampleLib (checkout [ruleAlways]) proPlan"
    using gated_rule_without_user_skipped
        [OF u p, of exampleLib "checkout []" "[]" "[ruleAlways]"]
    by (simp only: c1 c2)
  with u m v show ?thesis by simp
qed

text \<open>
  C10, as amended. For the configuration
  \<open>{enabled: true, defaultValue: false, rolloutPercentage: 100, rules: []}\<close>, with any
  key and any type, and the context \<open>{user_id: "u1"}\<close>, \<open>evaluateFlag\<close> returns
  \<open>false\<close>, the configured default value.
\<close>

theorem full_rollout_returns_default:
  "evaluateFlag L \<lparr>Key = key, Type = flagType, Enabled = True, DefaultValue = VBool False,
       Rules = [], RolloutPercentage = 100\<rparr> [(''user_id'', VString ''u1'')] = VBool False"
  by (simp add: evaluateFlag_def extractUserID_def isInRollout_def)

text \<open>
  The claim C10 as stated (the result is \<open>true\<close>) fails on the code: at a full rollout
  the code returns the default value, which is \<open>false\<close> here.
\<close>

theorem full_rollout_not_true:
  "evaluateFlag exampleLib \<lparr>Key = ''flag'', Type = ''BOOLEAN'', Enabled = True, DefaultValue = VBool False,
       Rules = [], RolloutPercentage = 100\<rparr> [(''user_id'', VString ''u1'')] \<noteq> VBool True"
  by (simp add: evaluateFlag_def extractUserID_def isInRollout_def)

section \<open>Properties of the typed accessors\<close>

text \<open>
  C7, as amended. \<open>GetBooleanFlag\<close>, \<open>GetStringFlag\<close> and \<open>GetNumberFlag\<close> return the
  caller's default when the key is not in the catalog, and when the value
  \<open>evaluateFlag\<close> gives has not the dynamic type the accessor asks for: a \<^verbatim>\<open>bool\<close>, a
  \<^verbatim>\<open>string\<close>, one of \<^verbatim>\<open>float64\<close>, \<^verbatim>\<open>float32\<close>, \<^verbatim>\<open>int\<close>, \<^verbatim>\<open>int64\<close>. A value of the
  asked type is returned (converted to \<^verbatim>\<open>float64\<close> by the number accessor).
  \<open>GetJSONFlag\<close> checks no type: it returns the caller's default when the key is not in
  the catalog and when the evaluated value is nil, and it returns every other evaluated
  value as it is, a boolean, a string or a number included. No accessor returns or raises
  an error: each reads the map, evaluates, and tests the type with a checked assertion or
  a type switch with a default branch, so every path ends in a plain result.
\<close>

theorem typed_accessors_fall_back:
  "(flags c key = None \<longrightarrow>
      GetBooleanFlag L c key defaultBool context = defaultBool
    \<and> GetStringFlag L c key defaultString context = defaultString
    \<and> GetNumberFlag L c key defaultNumber context = defaultNumber
    \<and> GetJSONFlag L c key defaultJSON context = defaultJSON)
   \<and> (flags c key = Some config \<longrightarrow>
      (\<not> isBool (evaluateFlag L config context) \<longrightarrow>
         GetBooleanFlag L c key defaultBool context = defaultBool)
    \<and> (\<not> isString (evaluateFlag L config context) \<longrightarrow>
         GetStringFlag L c key defaultString context = defaultString)
    \<and> (\<not> isNumber (evaluateFlag L config context) \<longrightarrow>
         GetNumberFlag L c key defaultNumber context = defaultNumber)
    \<and> (evaluateFlag L config context = VNil \<longrightarrow>
         GetJSONFlag L c key defaultJSON context = defaultJSON)
    \<and> (isBool (evaluateFlag L config context) \<longrightarrow>
         VBool (GetBooleanFlag L c key defaultBool context) = evaluateFlag L config context)
    \<and> (isString (evaluateFlag L config context) \<longrightarrow>
         VString (GetStringFlag L c key defaultString context) = evaluateFlag L config context)
    \<and> (isNumber (evaluateFlag L config context) \<longrightarrow>
         GetNumberFlag L c key defaultNumber context = toFloat L (evaluateFlag L config context))
    \<and> (evaluateFlag L config context \<noteq> VNil \<longrightarrow>
         GetJSONFlag L c key defaultJSON context = evaluateFlag L config context))"
  by (auto simp: GetBooleanFlag_def GetStringFlag_def GetNumberFlag_def GetJSONFlag_def
        getFlagConfig_def isBool_def isString_def isNumber_def Let_def split: val.splits)

theorem typed_accessors_fall_back_witness:
  "flags exampleClient ''missing'' = None
   \<and> GetBooleanFlag exampleLib exampleClient ''missing'' False [] = False
   \<and> GetStringFlag exampleLib exampleClient ''missing'' ''control'' [] = ''control''
   \<and> GetNumberFlag exampleLib exampleClient ''missing'' 0x4059000000000000 [] = 0x4059000000000000
   \<and> GetJSONFlag exampleLib exampleClient ''missing'' (VSlice []) [] = VSlice []
   \<and> flags exampleClient ''dark-mode'' = Some darkMode
   \<and> evaluateFlag exampleLib darkMode [] = VBool True
   \<and> GetBooleanFlag exampleLib exampleClient ''dark-mode'' False [] = True
   \<and> GetStringFlag exampleLib exampleClient ''dark-mode'' ''control'' [] = ''control''
   \<and> GetNumberFlag exampleLib exampleClient ''dark-mode'' 0x4059000000000000 [] = 0x4059000000000000
   \<and> GetJSONFlag exampleLib exampleClient ''dark-mode'' (VSlice []) [] = VBool True"
proof -
  have m: "flags exampleClient ''missing'' = None"
    by (simp add: exampleClient_def)
  have p: "flags exampleClient ''dark-mode'' = Some darkMode"
    by (simp add: exampleClient_def)
  have e: "evaluateFlag exampleLib darkMode [] = VBool True"
    by (simp add: evaluateFlag_def darkMode_def extractUserID_def)
  show ?thesis
    using typed_accessors_fall_back
        [of exampleClient "''missing''" exampleLib False "[]" "''control''" "0x4059000000000000"
            "VSlice []"]
      typed_accessors_fall_back
        [of exampleClient "''dark-mode''" exampleLib False "[]" "''control''" "0x4059000000000000"
            "VSlice []" darkMode]
    by (simp add: m p e isBool_def isString_def isNumber_def)
qed

text \<open>
  The claim C7 as stated (each of the four accessors returns the caller's default when
  the evaluated result does not match the requested type) fails for \<open>GetJSONFlag\<close>: on
  a flag of type \<^verbatim>\<open>BOOLEAN\<close> whose evaluation gives the boolean \<open>true\<close>, the JSON
  accessor returns that boolean and not the caller's default, where the string accessor
  on the same flag returns its default.
\<close>

theorem json_accessor_returns_mismatched_value:
  "flags exampleClient ''dark-mode'' = Some darkMode
   \<and> Type darkMode = ''BOOLEAN''
   \<and> evaluateFlag exampleLib darkMode [] = VBool True
   \<and> GetJSONFlag exampleLib exampleClient ''dark-mode'' (VSlice []) [] = VBool True
   \<and> GetJSONFlag exampleLib exampleClient ''dark-mode'' (VSlice []) [] \<noteq> VSlice []
   \<and> GetStringFlag exampleLib exampleClient ''dark-mode'' ''control'' [] = ''control''"
  by (simp add: GetJSONFlag_def GetStringFlag_def getFlagConfig_def exampleClient_def
      darkMode_def evaluateFlag_def extractUserID_def)

section \<open>Properties of the refresh\<close>

lemma fetchFlags_failed:
  assumes "fetched x = Inl err"
  shows "fetchFlags c x = (c, callOnError c err)"
  using assms by (auto simp: fetched_def fetchFlags_def split: exchange.splits if_splits)

lemma fetchFlags_ok:
  assumes "fetched x = Inr new"
  shows "fetchFlags c x = (c\<lparr>flags := new\<rparr>, [])"
  using assms by (auto simp: fetched_def fetchFlags_def split: exchange.splits if_splits)

lemma fetchFlagsStale_failed:
  assumes "fetched x = Inl err"
  shows "fetchFlagsStale c x now = failedStep c err now"
  using assms by (auto simp: fetched_def fetchFlagsStale_def split: exchange.splits if_splits)

lemma fetchFlagsStale_ok:
  assumes "fetched x = Inr new"
  shows "fetchFlagsStale c x now
           = (c\<lparr>flags := new, lastUpdatedAt := now, staleFired := False\<rparr>, [])"
  using assms by (auto simp: fetched_def fetchFlagsStale_def split: exchange.splits if_splits)

lemma checkStaleness_frame:
  "flags (fst (checkStaleness c now)) = flags c
   \<and> lastUpdatedAt (fst (checkStaleness c now)) = lastUpdatedAt c"
  by (simp add: checkStaleness_def Let_def)

lemma failedStep_fst: "fst (failedStep c err now) = fst (checkStaleness c now)"
  by (simp add: failedStep_def split: prod.splits)

lemma failedStep_snd: "snd (failedStep c err now) = callOnError c err @ snd (checkStaleness c now)"
  by (simp add: failedStep_def split: prod.splits)

text \<open>
  C8. A refresh that fails (the request cannot be built or sent, the status is not 200,
  which covers every status outside 2xx, or the body does not decode) leaves the catalog
  as it was and calls the error callback, when one is configured, once with the error. A
  refresh that succeeds replaces the whole catalog by the decoded one. This holds for the
  refresh of both revisions; in the later one a failed refresh also leaves the time of the
  last update as it was, and the staleness check follows the error callback.
\<close>

theorem failed_refresh_keeps_catalog:
  "(fetched x = Inl err \<longrightarrow>
      flags (fst (fetchFlags c x)) = flags c
    \<and> snd (fetchFlags c x) = (if onError c then [OnErrorCall err] else [])
    \<and> flags (fst (fetchFlagsStale c x now)) = flags c
    \<and> lastUpdatedAt (fst (fetchFlagsStale c x now)) = lastUpdatedAt c
    \<and> snd (fetchFlagsStale c x now)
        = (if onError c then [OnErrorCall err] else []) @ snd (checkStaleness c now))
   \<and> (fetched x = Inr new \<longrightarrow>
      flags (fst (fetchFlags c x)) = new
    \<and> flags (fst (fetchFlagsStale c x now)) = new)"
  by (simp add: fetchFlags_failed fetchFlags_ok fetchFlagsStale_failed fetchFlagsStale_ok
      failedStep_fst failedStep_snd checkStaleness_frame callOnError_def)

theorem failed_refresh_keeps_catalog_witness:
  "fetched refused = Inl (LibError ''connection refused'')
   \<and> flags (fst (fetchFlags exampleClient refused)) = flags exampleClient
   \<and> snd (fetchFlags exampleClient refused) = [OnErrorCall (LibError ''connection refused'')]
   \<and> fetched unavailable = Inl (StatusError 503 ''unavailable'')
   \<and> flags (fst (fetchFlagsStale exampleClient unavailable 1400)) = flags exampleClient
   \<and> snd (fetchFlagsStale exampleClient unavailable 1400)
       = [OnErrorCall (StatusError 503 ''unavailable''), OnStaleCall 1000 400]
   \<and> fetched truncated = Inl (LibError ''unexpected EOF'')
   \<and> flags (fst (fetchFlagsStale exampleClient truncated 1100)) = flags exampleClient
   \<and> snd (fetchFlagsStale exampleClient truncated 1100) = [OnErrorCall (LibError ''unexpected EOF'')]
   \<and> fetched emptyCatalog = Inr Map.empty
   \<and> flags (fst (fetchFlags exampleClient emptyCatalog)) = Map.empty
   \<and> flags (fst (fetchFlagsStale exampleClient emptyCatalog 1100)) = Map.empty"
proof -
  have 1: "fetched refused = Inl (LibError ''connection refused'')"
    by (simp add: fetched_def refused_def)
  have 2: "fetched unavailable = Inl (StatusError 503 ''unavailable'')"
    by (simp add: fetched_def unavailable_def)
  have 3: "fetched truncated = Inl (LibError ''unexpected EOF'')"
    by (simp add: fetched_def truncated_def)
  have 4: "fetched emptyCatalog = Inr Map.empty"
    by (simp add: fetched_def emptyCatalog_def)
  have s1: "snd (checkStaleness exampleClient 1400) = [OnStaleCall 1000 400]"
    by (simp add: checkStaleness_def exampleClient_def Since_def)
  have s2: "snd (checkStaleness exampleClient 1100) = []"
    by (simp add: checkStaleness_def exampleClient_def Since_def)
  have o: "onError exampleClient"
    by (simp add: exampleClient_def)
  show ?thesis
    using failed_refresh_keeps_catalog [of refused "LibError ''connection refused''" exampleClient 0]
      failed_refresh_keeps_catalog [of unavailable "StatusError 503 ''unavailable''" exampleClient 1400]
      failed_refresh_keeps_catalog [of truncated "LibError ''unexpected EOF''" exampleClient 1100]
      failed_refresh_keeps_catalog [of emptyCatalog _ exampleClient 1100 Map.empty]
    by (simp add: 1 2 3 4 s1 s2 o)
qed

lemma failed_step_stale:
  assumes "fetched x = Inl err"
  shows "staleFired (fst (fetchFlagsStale c x now)) = (staleFired c \<or> ageExceeded c now)"
    and "staleCalls (snd (fetchFlagsStale c x now))
         = (if ageExceeded c now \<and> \<not> staleFired c \<and> onStale c
            then [OnStaleCall (lastUpdatedAt c) (Since now (lastUpdatedAt c))] else [])"
  using assms
  by (auto simp: fetchFlagsStale_failed failedStep_def checkStaleness_def Let_def ageExceeded_def
      staleCalls_def isStaleCall_def callOnError_def)

lemma ok_step_stale:
  assumes "fetched x = Inr new"
  shows "\<not> staleFired (fst (fetchFlagsStale c x now))"
    and "staleCalls (snd (fetchFlagsStale c x now)) = []"
  using assms by (simp_all add: fetchFlagsStale_ok staleCalls_def)

lemma polling_Cons:
  "polling c ((x, now) # ticks)
     = (fst (polling (fst (fetchFlagsStale c x now)) ticks),
        snd (fetchFlagsStale c x now) @ snd (polling (fst (fetchFlagsStale c x now)) ticks))"
  by (simp add: Let_def split: prod.splits)

lemma staleCalls_append: "staleCalls (a @ b) = staleCalls a @ staleCalls b"
  by (simp add: staleCalls_def)

lemma episode_fired:
  "\<forall>t \<in> set ticks. failed (fst t) \<Longrightarrow> staleFired c \<Longrightarrow>
     staleCalls (snd (polling c ticks)) = [] \<and> staleFired (fst (polling c ticks))"
proof (induction ticks arbitrary: c)
  case Nil
  then show ?case by (simp add: staleCalls_def)
next
  case (Cons t ticks)
  obtain x now where t: "t = (x, now)" by (cases t)
  from Cons.prems t obtain err where f: "fetched x = Inl err"
    by (auto simp: failed_def split: sum.splits)
  have 1: "staleFired (fst (fetchFlagsStale c x now))"
    using failed_step_stale(1) [OF f] Cons.prems(2) by simp
  have 2: "staleCalls (snd (fetchFlagsStale c x now)) = []"
    using failed_step_stale(2) [OF f] Cons.prems(2) by simp
  have "\<forall>t \<in> set ticks. failed (fst t)" using Cons.prems(1) by simp
  from Cons.IH [OF this 1] 2 show ?case
    by (simp add: t polling_Cons staleCalls_append del: polling.simps)
qed

lemma episode_at_most_once:
  "\<forall>t \<in> set ticks. failed (fst t) \<Longrightarrow> length (staleCalls (snd (polling c ticks))) \<le> 1"
proof (induction ticks arbitrary: c)
  case Nil
  then show ?case by (simp add: staleCalls_def)
next
  case (Cons t ticks)
  obtain x now where t: "t = (x, now)" by (cases t)
  from Cons.prems t obtain err where f: "fetched x = Inl err"
    by (auto simp: failed_def split: sum.splits)
  have rest: "\<forall>t \<in> set ticks. failed (fst t)" using Cons.prems by simp
  let ?c1 = "fst (fetchFlagsStale c x now)"
  show ?case
  proof (cases "staleCalls (snd (fetchFlagsStale c x now)) = []")
    case True
    with Cons.IH [OF rest, of ?c1] show ?thesis
      by (simp add: t polling_Cons staleCalls_append del: polling.simps)
  next
    case False
    then have fired: "staleFired ?c1" and one: "length (staleCalls (snd (fetchFlagsStale c x now))) = 1"
      using failed_step_stale [OF f, of c now] by (auto split: if_splits)
    from episode_fired [OF rest fired] one show ?thesis
      by (simp add: t polling_Cons staleCalls_append del: polling.simps)
  qed
qed

lemma stale_calls_bound:
  "length (staleCalls (snd (polling c ticks)))
     \<le> (if staleFired c then 0 else 1) + successes ticks"
proof (induction ticks arbitrary: c)
  case Nil
  then show ?case by (simp add: staleCalls_def)
next
  case (Cons t ticks)
  obtain x now where t: "t = (x, now)" by (cases t)
  let ?c1 = "fst (fetchFlagsStale c x now)"
  let ?e1 = "snd (fetchFlagsStale c x now)"
  have split: "length (staleCalls (snd (polling c (t # ticks))))
      = length (staleCalls ?e1) + length (staleCalls (snd (polling ?c1 ticks)))"
    by (simp add: t polling_Cons staleCalls_append del: polling.simps)
  have ih: "length (staleCalls (snd (polling ?c1 ticks)))
      \<le> (if staleFired ?c1 then 0 else 1) + successes ticks"
    by (rule Cons.IH)
  show ?case
  proof (cases "failed x")
    case True
    then obtain err where f: "fetched x = Inl err"
      by (auto simp: failed_def split: sum.splits)
    have s: "successes (t # ticks) = successes ticks"
      using True by (simp add: successes_def t)
    have "length (staleCalls ?e1) + (if staleFired ?c1 then 0 else 1)
        \<le> (if staleFired c then 0 else 1)"
      using failed_step_stale [OF f, of c now] by (auto split: if_splits)
    with ih split s show ?thesis by simp
  next
    case False
    then obtain new where f: "fetched x = Inr new"
      by (auto simp: failed_def split: sum.splits)
    have s: "successes (t # ticks) = Suc (successes ticks)"
      using False by (simp add: successes_def t)
    have "length (staleCalls ?e1) = 0"
      using ok_step_stale [OF f, of c now] by simp
    with ih split s show ?thesis by (simp split: if_splits)
  qed
qed

text \<open>
  C9. The stale alarm fires at most once per stale episode. In any run of failed and
  successful refreshes, from any state, the calls of the stale callback are at most one
  more than the successful refreshes (and no more than these if the alarm had already
  fired at the start). In any run of failed refreshes only, the stale callback is called
  at most once, and not at all if the alarm had already fired. A failed refresh sets
  \<open>staleFired\<close> exactly when the age check exceeds the maximum age (the last update
  is set and is older than \<open>maxStaleAge\<close>), and it calls the stale callback, if one
  is configured, only when the alarm had not fired before. A successful refresh resets
  \<open>staleFired\<close> to false and calls no stale callback.
\<close>

theorem stale_alarm_once_per_episode:
  "length (staleCalls (snd (polling c run)))
     \<le> (if staleFired c then 0 else 1) + successes run
   \<and> ((\<forall>t \<in> set ticks. failed (fst t)) \<longrightarrow>
       length (staleCalls (snd (polling c ticks))) \<le> 1
     \<and> (staleFired c \<longrightarrow> staleCalls (snd (polling c ticks)) = []))
   \<and> (failed x \<longrightarrow>
       staleFired (fst (fetchFlagsStale c x now)) = (staleFired c \<or> ageExceeded c now)
     \<and> staleCalls (snd (fetchFlagsStale c x now))
         = (if ageExceeded c now \<and> \<not> staleFired c \<and> onStale c
            then [OnStaleCall (lastUpdatedAt c) (Since now (lastUpdatedAt c))] else []))
   \<and> (\<not> failed x \<longrightarrow>
       \<not> staleFired (fst (fetchFlagsStale c x now))
     \<and> staleCalls (snd (fetchFlagsStale c x now)) = [])"
proof -
  have a: "failed x \<Longrightarrow> \<exists>err. fetched x = Inl err"
    by (auto simp: failed_def split: sum.splits)
  have b: "\<not> failed x \<Longrightarrow> \<exists>new. fetched x = Inr new"
    by (auto simp: failed_def split: sum.splits)
  show ?thesis
    using stale_calls_bound [of c run] episode_at_most_once [of ticks c]
      episode_fired [of ticks c] failed_step_stale [of x _ c now]
      ok_step_stale [of x _ c now] a b
    by blast
qed

theorem stale_alarm_once_per_episode_witness:
  "failed refused \<and> \<not> failed emptyCatalog
   \<and> successes [(refused, 1400), (refused, 1500), (emptyCatalog, 1600), (refused, 1700),
          (refused, 2000), (refused, 2100)] = 1
   \<and> snd (polling exampleClient [(refused, 1100), (refused, 1400), (refused, 1500)])
       = [OnErrorCall (LibError ''connection refused''),
          OnErrorCall (LibError ''connection refused''), OnStaleCall 1000 400,
          OnErrorCall (LibError ''connection refused'')]
   \<and> length (staleCalls
         (snd (polling exampleClient [(refused, 1100), (refused, 1400), (refused, 1500)]))) = 1
   \<and> staleFired (fst (fetchFlagsStale exampleClient refused 1400))
   \<and> \<not> staleFired (fst (fetchFlagsStale (exampleClient\<lparr>staleFired := True\<rparr>) emptyCatalog 1600))
   \<and> snd (polling exampleClient
         [(refused, 1400), (refused, 1500), (emptyCatalog, 1600), (refused, 1700),
          (refused, 2000), (refused, 2100)])
       = [OnErrorCall (LibError ''connection refused''), OnStaleCall 1000 400,
          OnErrorCall (LibError ''connection refused''),
          OnErrorCall (LibError ''connection refused''),
          OnErrorCall (LibError ''connection refused''), OnStaleCall 1600 400,
          OnErrorCall (LibError ''connection refused'')]"
proof -
  have f: "failed refused"
    by (simp add: failed_def fetched_def refused_def)
  have g: "\<not> failed emptyCatalog"
    by (simp add: failed_def fetched_def emptyCatalog_def)
  have all: "\<forall>t \<in> set [(refused, 1100), (refused, 1400), (refused, 1500::int)]. failed (fst t)"
    using f by simp
  have run: "snd (polling exampleClient [(refused, 1100), (refused, 1400), (refused, 1500)])
       = [OnErrorCall (LibError ''connection refused''),
          OnErrorCall (LibError ''connection refused''), OnStaleCall 1000 400,
          OnErrorCall (LibError ''connection refused'')]"
    by (simp add: exampleClient_def refused_def fetchFlagsStale_def failedStep_def
        checkStaleness_def callOnError_def Since_def)
  have run2: "snd (polling exampleClient
         [(refused, 1400), (refused, 1500), (emptyCatalog, 1600), (refused, 1700),
          (refused, 2000), (refused, 2100)])
       = [OnErrorCall (LibError ''connection refused''), OnStaleCall 1000 400,
          OnErrorCall (LibError ''connection refused''),
          OnErrorCall (LibError ''connection refused''),
          OnErrorCall (LibError ''connection refused''), OnStaleCall 1600 400,
          OnErrorCall (LibError ''connection refused'')]"
    by (simp add: exampleClient_def refused_def emptyCatalog_def fetchFlagsStale_def
        failedStep_def checkStaleness_def callOnError_def Since_def)
  have a: "ageExceeded exampleClient 1400"
    by (simp add: ageExceeded_def exampleClient_def Since_def)
  have n: "\<not> staleFired exampleClient"
    by (simp add: exampleClient_def)
  show ?thesis
    using stale_alarm_once_per_episode
        [of exampleClient
            "[(refused, 1400), (refused, 1500), (emptyCatalog, 1600), (refused, 1700),
              (refused, 2000), (refused, 2100)]"
            "[(refused, 1100), (refused, 1400), (refused, 1500)]" refused 1400]
      stale_alarm_once_per_episode
        [of "exampleClient\<lparr>staleFired := True\<rparr>" "[]" "[]" emptyCatalog 1600]
    by (simp add: f g run run2 a n all staleCalls_def isStaleCall_def successes_def
        del: polling.simps)
qed

end
